theory Spec2Isabelle
  imports Complex_Main
begin

section \<open>JavaScript values, strings and truthiness\<close>

text \<open>
  The front-end exists in two variants: \<^verbatim>\<open>ReportGenerator\<close> (src/App.jsx, which calls
  \<^verbatim>\<open>fetch\<close> itself) and \<^verbatim>\<open>App\<close> (src/unnamed/part_001, which calls \<^verbatim>\<open>analyzeData\<close> of
  src/api.js). Both are embedded below. Strings are lists of characters with code below
  256; the messages of the source are ASCII.
\<close>

datatype jsval =
    JUndefined
  | JNull
  | JBool bool
  | JNum rat
  | JStr string
  | JArr "jsval list"
  | JObj "(string \<times> jsval) list"

text \<open>The values that count as true in \<^verbatim>\<open>!x\<close>, \<^verbatim>\<open>x || y\<close> and \<^verbatim>\<open>x && y\<close>.\<close>

fun truthy :: "jsval \<Rightarrow> bool" where
  "truthy JUndefined = False"
| "truthy JNull = False"
| "truthy (JBool b) = b"
| "truthy (JNum q) = (q \<noteq> 0)"
| "truthy (JStr s) = (s \<noteq> [])"
| "truthy (JArr xs) = True"
| "truthy (JObj kvs) = True"

text \<open>\<^verbatim>\<open>a || b\<close>\<close>

definition js_or :: "jsval \<Rightarrow> jsval \<Rightarrow> jsval" where
  "js_or a b = (if truthy a then a else b)"

text \<open>
  A thrown value is an \<^verbatim>\<open>Error\<close> object; only its \<^verbatim>\<open>message\<close> is ever read, so an
  exception is modelled by its message.
\<close>

type_synonym exn = string

text \<open>
  \<^verbatim>\<open>err.error\<close> on a value that \<^verbatim>\<open>response.json()\<close> produced: reading a property of
  \<^verbatim>\<open>null\<close> or \<^verbatim>\<open>undefined\<close> throws a TypeError; primitives and arrays have no property
  of that name; an object yields the property or \<^verbatim>\<open>undefined\<close>.
\<close>

fun prop_error :: "jsval \<Rightarrow> exn + jsval" where
  "prop_error JUndefined = Inl ''TypeError: cannot read properties of undefined''"
| "prop_error JNull = Inl ''TypeError: cannot read properties of null''"
| "prop_error (JObj kvs) = Inr (case map_of kvs ''error'' of None \<Rightarrow> JUndefined | Some v \<Rightarrow> v)"
| "prop_error v = Inr JUndefined"

text \<open>
  \<^verbatim>\<open>String.prototype.trim\<close>: the white space and line terminator code units below 256
  are TAB, LF, VT, FF, CR, SP and NBSP.
\<close>

definition isWhiteSpace :: "char \<Rightarrow> bool" where
  "isWhiteSpace c = (of_char c \<in> {9, 10, 11, 12, 13, 32, 160 :: nat})"

definition trim :: "string \<Rightarrow> string" where
  "trim s = rev (dropWhile isWhiteSpace (rev (dropWhile isWhiteSpace s)))"

text \<open>The decimal digits of a number, as the template literal \<^verbatim>\<open>${res.status}\<close> prints it.\<close>

fun decimal :: "nat \<Rightarrow> string" where
  "decimal n = (if n < 10 then [char_of (48 + n)] else decimal (n div 10) @ [char_of (48 + n mod 10)])"

declare decimal.simps [simp del]

section \<open>The browser: form data, requests, responses, object URLs\<close>

datatype csv_file = File (fileName: string) (fileBytes: string)

type_synonym blob = string

datatype form_entry = TextEntry string | FileEntry csv_file

text \<open>\<^verbatim>\<open>formData.append(k, v)\<close> adds the entry at the end.\<close>

definition append_entry :: "string \<Rightarrow> form_entry \<Rightarrow> (string \<times> form_entry) list \<Rightarrow> (string \<times> form_entry) list" where
  "append_entry k v fd = fd @ [(k, v)]"

record request =
  req_url :: string
  req_method :: string
  req_body :: "(string \<times> form_entry) list"

text \<open>
  A response as the handlers read it: the status, what \<^verbatim>\<open>response.json()\<close> settles
  with (a rejection when the body is not JSON or cannot be read) and what
  \<^verbatim>\<open>response.blob()\<close> settles with.
\<close>

record response =
  status :: nat
  json_result :: "exn + jsval"
  blob_result :: "exn + blob"

text \<open>\<^verbatim>\<open>response.ok\<close>: the status is in the range 200 to 299.\<close>

definition ok :: "response \<Rightarrow> bool" where
  "ok r = (200 \<le> status r \<and> status r \<le> 299)"

text \<open>How an issued \<^verbatim>\<open>fetch\<close> settles: it rejects (no response at all) or it resolves.\<close>

datatype outcome = Rejected exn | Responded response

datatype object_url = BlobURL nat

text \<open>
  The state shared by both components: the \<^verbatim>\<open>useState\<close> slots \<^verbatim>\<open>file\<close> (named
  \<open>file_sel\<close> here), \<^verbatim>\<open>pdfUrl\<close> and \<^verbatim>\<open>error\<close>, and the browser around them: the requests issued so far (oldest first), the
  number of them not yet settled, and the blob URL store, which holds every object URL
  from its creation until \<^verbatim>\<open>URL.revokeObjectURL\<close> removes it. The source never calls
  \<^verbatim>\<open>revokeObjectURL\<close>.
\<close>

record page =
  file_sel :: "csv_file option"
  pdfUrl :: "object_url option"
  error :: jsval
  requests :: "request list"
  inflight :: nat
  blob_urls :: "(object_url \<times> blob) list"
  url_counter :: nat

text \<open>\<^verbatim>\<open>fetch(url, {method: "POST", body})\<close> up to its \<^verbatim>\<open>await\<close>: the request leaves.\<close>

definition fetch :: "string \<Rightarrow> (string \<times> form_entry) list \<Rightarrow> 'a page_scheme \<Rightarrow> 'a page_scheme" where
  "fetch u fd w =
     w\<lparr>requests := requests w @ [\<lparr>req_url = u, req_method = ''POST'', req_body = fd\<rparr>],
       inflight := inflight w + 1\<rparr>"

text \<open>\<^verbatim>\<open>URL.createObjectURL(blob)\<close>: a URL not handed out before, registered in the store.\<close>

definition createObjectURL :: "blob \<Rightarrow> 'a page_scheme \<Rightarrow> object_url \<times> 'a page_scheme" where
  "createObjectURL b w =
     (BlobURL (url_counter w),
      w\<lparr>blob_urls := blob_urls w @ [(BlobURL (url_counter w), b)],
        url_counter := url_counter w + 1\<rparr>)"

section \<open>ReportGenerator (src/App.jsx)\<close>

record rg_state = page +
  reportTitle :: string
  loading :: bool

definition RG_init :: rg_state where
  "RG_init = \<lparr>file_sel = None, pdfUrl = None, error = JNull, requests = [], inflight = 0,
              blob_urls = [], url_counter = 0, reportTitle = [], loading = False\<rparr>"

text \<open>\<^verbatim>\<open>handleSubmit\<close> from its entry to the \<^verbatim>\<open>await fetch(...)\<close> (lines 10 to 34).\<close>

definition handleSubmit :: "rg_state \<Rightarrow> rg_state" where
  "handleSubmit w =
     (let w1 = w\<lparr>error := JNull, pdfUrl := None\<rparr> in
      case file_sel w of
        None \<Rightarrow> w1\<lparr>error := JStr ''Please upload a CSV file.''\<rparr>
      | Some f \<Rightarrow>
          if trim (reportTitle w) = [] then w1\<lparr>error := JStr ''Please enter a report title.''\<rparr>
          else
            let w2 = w1\<lparr>loading := True\<rparr>;
                formData = append_entry ''reportTitle'' (TextEntry (trim (reportTitle w)))
                             (append_entry ''file'' (FileEntry f) [])
            in fetch ''http://localhost:8000/api/analyze'' formData w2)"

text \<open>
  The rest of \<^verbatim>\<open>handleSubmit\<close>, run when the fetch settles (lines 36 to 50). Every
  exception inside the \<^verbatim>\<open>try\<close> (a rejected fetch, a rejected \<^verbatim>\<open>json()\<close> or \<^verbatim>\<open>blob()\<close>,
  the TypeError of \<^verbatim>\<open>err.error\<close>) reaches the one \<^verbatim>\<open>catch\<close>; \<^verbatim>\<open>finally\<close> clears
  \<^verbatim>\<open>loading\<close> on every path.
\<close>

definition RG_catch :: "rg_state \<Rightarrow> rg_state" where
  "RG_catch w = w\<lparr>error := JStr ''Network error. Please try again.'', loading := False\<rparr>"

definition handleSubmit_resume :: "outcome \<Rightarrow> rg_state \<Rightarrow> rg_state" where
  "handleSubmit_resume oc w0 =
     (let w = w0\<lparr>inflight := inflight w0 - 1\<rparr> in
      case oc of
        Rejected m \<Rightarrow> RG_catch w
      | Responded r \<Rightarrow>
          if \<not> ok r then
            (case json_result r of
               Inl m \<Rightarrow> RG_catch w
             | Inr err \<Rightarrow>
                 (case prop_error err of
                    Inl m \<Rightarrow> RG_catch w
                  | Inr e \<Rightarrow> w\<lparr>error := js_or e (JStr ''Failed to generate report.''),
                              loading := False\<rparr>))
          else
            (case blob_result r of
               Inl m \<Rightarrow> RG_catch w
             | Inr b \<Rightarrow>
                 (case createObjectURL b w of
                    (u, w') \<Rightarrow> w'\<lparr>pdfUrl := Some u, loading := False\<rparr>)))"

text \<open>
  What can happen to the page. The browser decides whether a submit by the user reaches
  \<^verbatim>\<open>handleSubmit\<close>. The submit button carries \<^verbatim>\<open>disabled={loading}\<close> (line 83), and a form
  whose submit button is disabled is not submitted. Both inputs carry \<^verbatim>\<open>required\<close>
  (lines 66 and 77), and a form with a required text input whose value is empty, or a
  required file input with no file chosen, is not submitted either: the browser shows its
  own hint and dispatches no submit event. The text input shows \<^verbatim>\<open>reportTitle\<close> and the file
  input's choice is \<^verbatim>\<open>file\<close>. A title of white space only is not empty and passes. So
  \<^verbatim>\<open>Submit\<close> reaches \<^verbatim>\<open>handleSubmit\<close> only when \<^verbatim>\<open>loading\<close> is false, the title is not
  empty and a file is chosen. A fetch can settle only if one is in flight.
\<close>

definition RG_required_missing :: "rg_state \<Rightarrow> bool" where
  "RG_required_missing w = (reportTitle w = [] \<or> file_sel w = None)"

datatype event = SetTitle string | SetFile "csv_file option" | Submit | Settle outcome

fun RG_step :: "event \<Rightarrow> rg_state \<Rightarrow> rg_state" where
  "RG_step (SetTitle t) w = w\<lparr>reportTitle := t\<rparr>"
| "RG_step (SetFile f) w = w\<lparr>file_sel := f\<rparr>"
| "RG_step Submit w = (if loading w \<or> RG_required_missing w then w else handleSubmit w)"
| "RG_step (Settle oc) w = (if inflight w = 0 then w else handleSubmit_resume oc w)"

fun run :: "(event \<Rightarrow> 's \<Rightarrow> 's) \<Rightarrow> event list \<Rightarrow> 's \<Rightarrow> 's" where
  "run step [] w = w"
| "run step (e # es) w = run step es (step e w)"

section \<open>App (src/unnamed/part_001) and analyzeData (src/api.js)\<close>

record app_state = page +
  name :: string

definition App_init :: app_state where
  "App_init = \<lparr>file_sel = None, pdfUrl = None, error = JNull, requests = [], inflight = 0,
               blob_urls = [], url_counter = 0, name = []\<rparr>"

text \<open>\<^verbatim>\<open>analyzeData\<close> up to its \<^verbatim>\<open>await fetch(...)\<close>, and from there to its end.\<close>

definition analyzeData :: "(string \<times> form_entry) list \<Rightarrow> 'a page_scheme \<Rightarrow> 'a page_scheme" where
  "analyzeData formData w = fetch ''/api/analyze'' formData w"

definition analyzeData_resume :: "outcome \<Rightarrow> 'a page_scheme \<Rightarrow> (exn + object_url) \<times> 'a page_scheme" where
  "analyzeData_resume oc w =
     (case oc of
        Rejected m \<Rightarrow> (Inl m, w)
      | Responded res \<Rightarrow>
          if \<not> ok res then (Inl (''Server error: '' @ decimal (status res)), w)
          else
            (case blob_result res of
               Inl m \<Rightarrow> (Inl m, w)
             | Inr b \<Rightarrow> (case createObjectURL b w of (u, w') \<Rightarrow> (Inr u, w'))))"

text \<open>
  \<^verbatim>\<open>handleSubmit\<close> of App: lines 10 to 24, then lines 24 to 28 when the call settles.
  \<^verbatim>\<open>!name || !file\<close> tests the name first; \<^verbatim>\<open>!name\<close> holds of the empty string only.
\<close>

definition App_handleSubmit :: "app_state \<Rightarrow> app_state" where
  "App_handleSubmit w =
     (let w1 = w\<lparr>error := JNull\<rparr>;
          invalid = w1\<lparr>error := JStr ''Please enter a name and upload a CSV file.''\<rparr>
      in
      if name w = [] then invalid
      else
        case file_sel w of
          None \<Rightarrow> invalid
        | Some f \<Rightarrow>
            let formData = append_entry ''file'' (FileEntry f)
                             (append_entry ''agentName'' (TextEntry (name w)) [])
            in analyzeData formData w1)"

definition App_handleSubmit_resume :: "outcome \<Rightarrow> app_state \<Rightarrow> app_state" where
  "App_handleSubmit_resume oc w0 =
     (case analyzeData_resume oc (w0\<lparr>inflight := inflight w0 - 1\<rparr>) of
        (Inr u, w) \<Rightarrow> w\<lparr>pdfUrl := Some u\<rparr>
      | (Inl m, w) \<Rightarrow> w\<lparr>error := JStr (''Failed to generate PDF: '' @ m)\<rparr>)"

text \<open>
  The button of App is never disabled and its inputs are not \<^verbatim>\<open>required\<close>: every
  \<^verbatim>\<open>Submit\<close> reaches the handler.
\<close>

fun App_step :: "event \<Rightarrow> app_state \<Rightarrow> app_state" where
  "App_step (SetTitle t) w = w\<lparr>name := t\<rparr>"
| "App_step (SetFile f) w = w\<lparr>file_sel := f\<rparr>"
| "App_step Submit w = App_handleSubmit w"
| "App_step (Settle oc) w = (if inflight w = 0 then w else App_handleSubmit_resume oc w)"

section \<open>The submission state machine\<close>

text \<open>
  The four Submission Results, and which of them a ReportGenerator state shows: the
  component renders "Generating..." while \<^verbatim>\<open>loading\<close>, the message when \<^verbatim>\<open>error\<close> is set
  and the preview when \<^verbatim>\<open>pdfUrl\<close> is set.
\<close>

datatype kind = KIdle | KPending | KSuccess | KFailed

definition RG_kind :: "rg_state \<Rightarrow> kind" where
  "RG_kind w =
     (if loading w then KPending
      else if error w \<noteq> JNull then KFailed
      else if pdfUrl w \<noteq> None then KSuccess
      else KIdle)"

text \<open>
  The machine in the words of the specification: Idle --submit(valid)--> Pending,
  Pending --resolve(ok)--> Success, Pending --resolve(err)--> Failed,
  {Success, Failed} --submit(valid)--> Pending and
  {Idle, Success, Failed} --submit(invalid)--> Failed. \<open>None\<close> where it lists no
  transition.
\<close>

datatype spec_event = SubmitValid | SubmitInvalid | ResolveOk | ResolveErr

fun spec_next :: "kind \<Rightarrow> spec_event \<Rightarrow> kind option" where
  "spec_next KIdle SubmitValid = Some KPending"
| "spec_next KPending ResolveOk = Some KSuccess"
| "spec_next KPending ResolveErr = Some KFailed"
| "spec_next KSuccess SubmitValid = Some KPending"
| "spec_next KFailed SubmitValid = Some KPending"
| "spec_next KIdle SubmitInvalid = Some KFailed"
| "spec_next KSuccess SubmitInvalid = Some KFailed"
| "spec_next KFailed SubmitInvalid = Some KFailed"
| "spec_next KPending SubmitValid = None"
| "spec_next KPending SubmitInvalid = None"
| "spec_next KIdle ResolveOk = None"
| "spec_next KIdle ResolveErr = None"
| "spec_next KSuccess ResolveOk = None"
| "spec_next KSuccess ResolveErr = None"
| "spec_next KFailed ResolveOk = None"
| "spec_next KFailed ResolveErr = None"

text \<open>
  Which event of the machine an event of the page is, in a given state. A submit that
  the \<^verbatim>\<open>required\<close> inputs block never becomes a submit attempt; one that passes is valid
  when both checks of \<^verbatim>\<open>handleSubmit\<close> pass. A settled request resolves ok when the
  response is ok and its body could be read as a blob. Editing a field is no event of
  the machine.
\<close>

definition RG_valid :: "rg_state \<Rightarrow> bool" where
  "RG_valid w = (file_sel w \<noteq> None \<and> trim (reportTitle w) \<noteq> [])"

fun succeeded :: "outcome \<Rightarrow> bool" where
  "succeeded (Rejected m) = False"
| "succeeded (Responded r) = (ok r \<and> (case blob_result r of Inl m \<Rightarrow> False | Inr b \<Rightarrow> True))"

fun RG_spec_event :: "event \<Rightarrow> rg_state \<Rightarrow> spec_event option" where
  "RG_spec_event Submit w =
     (if RG_required_missing w then None
      else Some (if RG_valid w then SubmitValid else SubmitInvalid))"
| "RG_spec_event (Settle oc) w = Some (if succeeded oc then ResolveOk else ResolveErr)"
| "RG_spec_event (SetTitle t) w = None"
| "RG_spec_event (SetFile f) w = None"

text \<open>
  The invariant of ReportGenerator: a request is in flight exactly while \<^verbatim>\<open>loading\<close>, and
  of \<^verbatim>\<open>loading\<close>, \<^verbatim>\<open>error\<close> and \<^verbatim>\<open>pdfUrl\<close> at most one is set.
\<close>

definition RG_inv :: "rg_state \<Rightarrow> bool" where
  "RG_inv w =
     (inflight w = (if loading w then 1 else 0)
      \<and> (if loading w then error w = JNull \<and> pdfUrl w = None
          else error w = JNull \<or> pdfUrl w = None))"

text \<open>The blob URL store holds only URLs already handed out.\<close>

fun url_id :: "object_url \<Rightarrow> nat" where
  "url_id (BlobURL n) = n"

definition store_inv :: "'a page_scheme \<Rightarrow> bool" where
  "store_inv w = list_all (\<lambda>p. url_id (fst p) < url_counter w) (blob_urls w)"

text \<open>The state a page is in after a sequence of events from its initial state.\<close>

abbreviation RG_after :: "event list \<Rightarrow> rg_state" where
  "RG_after evs \<equiv> run RG_step evs RG_init"

abbreviation App_after :: "event list \<Rightarrow> app_state" where
  "App_after evs \<equiv> run App_step evs App_init"

section \<open>Concrete inputs\<close>

definition sample_csv :: csv_file where
  "sample_csv = File ''data.csv'' ''a,b''"

definition sample_pdf :: blob where
  "sample_pdf = ''%PDF-1.4''"

text \<open>A ReportGenerator page and an App page with a file selected and the given text typed.\<close>

definition RG_filled :: "string \<Rightarrow> rg_state" where
  "RG_filled t = RG_init\<lparr>file_sel := Some sample_csv, reportTitle := t\<rparr>"

definition App_filled :: "string \<Rightarrow> app_state" where
  "App_filled t = App_init\<lparr>file_sel := Some sample_csv, name := t\<rparr>"

text \<open>The responses of the scenarios: 200 with a PDF, 500 with a JSON error body, 500 with a body that is not JSON.\<close>

definition pdf_response :: response where
  "pdf_response = \<lparr>status = 200, json_result = Inl ''SyntaxError'', blob_result = Inr sample_pdf\<rparr>"

definition bad_data_response :: response where
  "bad_data_response =
     \<lparr>status = 500, json_result = Inr (JObj [(''error'', JStr ''bad data'')]),
      blob_result = Inr ''{error:bad data}''\<rparr>"

definition html_error_response :: response where
  "html_error_response =
     \<lparr>status = 500, json_result = Inl ''SyntaxError'', blob_result = Inr ''<html>oops</html>''\<rparr>"

text \<open>Two submissions of the same form, each answered with a PDF; the second still pending.\<close>

definition second_pending :: "event list" where
  "second_pending =
     [SetTitle ''Report'', SetFile (Some sample_csv), Submit, Settle (Responded pdf_response), Submit]"

section \<open>Validation\<close>

lemma funpow_fixed: "f (f x) = f x \<Longrightarrow> (f ^^ Suc n) x = f x"
  by (induction n) simp_all

text \<open>A rejected submit changes the message and, in ReportGenerator, clears the preview; nothing else.\<close>

lemma handleSubmit_invalid:
  "file_sel w = None \<or> trim (reportTitle w) = [] \<Longrightarrow>
   handleSubmit w = w\<lparr>error := JStr (if file_sel w = None then ''Please upload a CSV file.'' else ''Please enter a report title.''),
                      pdfUrl := None\<rparr>"
  by (auto simp: handleSubmit_def Let_def split: option.splits)

lemma App_handleSubmit_invalid:
  "name a = [] \<or> file_sel a = None \<Longrightarrow>
   App_handleSubmit a = a\<lparr>error := JStr ''Please enter a name and upload a CSV file.''\<rparr>"
  by (auto simp: App_handleSubmit_def Let_def split: option.splits)

text \<open>
  C10. ReportGenerator tests the file before the title: with no file selected the message
  is "Please upload a CSV file.", whatever the title is. App has one combined message,
  "Please enter a name and upload a CSV file.", for an empty name and for a missing file.
\<close>

theorem C10_validation_order:
  "(file_sel w = None \<longrightarrow> error (handleSubmit w) = JStr ''Please upload a CSV file.'')
   \<and> (name a = [] \<or> file_sel a = None \<longrightarrow>
        error (App_handleSubmit a) = JStr ''Please enter a name and upload a CSV file.'')"
  by (auto simp: handleSubmit_invalid App_handleSubmit_invalid)

theorem C10_validation_order_witness:
  "file_sel RG_init = None \<and> trim (reportTitle RG_init) = []
   \<and> error (handleSubmit RG_init) = JStr ''Please upload a CSV file.''
   \<and> name (App_filled []) = []
   \<and> error (App_handleSubmit (App_filled [])) = JStr ''Please enter a name and upload a CSV file.''"
  using C10_validation_order [of RG_init "App_filled []"]
  by (simp add: RG_init_def App_filled_def App_init_def trim_def)

lemma trim_blank2: "trim ''  '' = []"
  by (simp add: trim_def isWhiteSpace_def)

lemma run_replicate: "run step (replicate n e) w = (step e ^^ n) w"
  by (induction n arbitrary: w) (simp_all add: funpow_swap1)

lemma App_submit_whitespace:
  "file_sel a = Some f \<Longrightarrow> name a = ''  '' \<Longrightarrow>
   App_handleSubmit a =
     a\<lparr>error := JNull,
       requests := requests a @ [\<lparr>req_url = ''/api/analyze'', req_method = ''POST'',
                    req_body = [(''agentName'', TextEntry ''  ''), (''file'', FileEntry f)]\<rparr>],
       inflight := inflight a + 1\<rparr>"
  by (simp add: App_handleSubmit_def analyzeData_def fetch_def append_entry_def Let_def)

text \<open>
  C9, as stated, fails in App: a name of two spaces is blank, yet with a file selected
  \<^verbatim>\<open>!name\<close> is false, so every repeat of the submit sends another request and sets no
  message.
\<close>

theorem C9_whitespace_name_counterexample:
  "file_sel (App_filled ''  '') = Some sample_csv
   \<and> trim (name (App_filled ''  '')) = []
   \<and> length (requests ((App_handleSubmit ^^ Suc (Suc (Suc 0))) (App_filled ''  ''))) = 3
   \<and> inflight ((App_handleSubmit ^^ Suc (Suc (Suc 0))) (App_filled ''  '')) = 3
   \<and> error ((App_handleSubmit ^^ Suc (Suc (Suc 0))) (App_filled ''  '')) = JNull"
  by (simp add: App_filled_def App_init_def trim_blank2 App_submit_whitespace)

text \<open>
  C9, amended. Submits that the handler rejects are idempotent. In ReportGenerator, with
  the file missing or the title empty after trimming, any number of runs of
  \<^verbatim>\<open>handleSubmit\<close> leave the state of the first: the same message, the preview cleared,
  \<^verbatim>\<open>loading\<close> untouched (so the state is Failed when it was not Pending), and the requests
  issued and in flight as they were. In App, with the name empty or the file missing, any
  number of runs leave the combined message and nothing else changed. On the page, the
  same holds of repeated submit events: in App always, in ReportGenerator for a title of
  white space only with a file chosen, which is the rejected input that the
  \<^verbatim>\<open>required\<close> inputs let through.
\<close>

theorem C9_rejected_submit_idempotent:
  "(file_sel w = None \<or> trim (reportTitle w) = [] \<longrightarrow>
      (handleSubmit ^^ Suc n) w =
        w\<lparr>error := JStr (if file_sel w = None then ''Please upload a CSV file.''
                           else ''Please enter a report title.''),
          pdfUrl := None\<rparr>
      \<and> error ((handleSubmit ^^ Suc n) w) =
          JStr (if file_sel w = None then ''Please upload a CSV file.''
                else ''Please enter a report title.'')
      \<and> pdfUrl ((handleSubmit ^^ Suc n) w) = None
      \<and> loading ((handleSubmit ^^ Suc n) w) = loading w
      \<and> (\<not> loading w \<longrightarrow> RG_kind ((handleSubmit ^^ Suc n) w) = KFailed)
      \<and> requests ((handleSubmit ^^ Suc n) w) = requests w
      \<and> inflight ((handleSubmit ^^ Suc n) w) = inflight w)
   \<and> (name a = [] \<or> file_sel a = None \<longrightarrow>
      (App_handleSubmit ^^ Suc n) a =
        a\<lparr>error := JStr ''Please enter a name and upload a CSV file.''\<rparr>
      \<and> error ((App_handleSubmit ^^ Suc n) a) = JStr ''Please enter a name and upload a CSV file.''
      \<and> pdfUrl ((App_handleSubmit ^^ Suc n) a) = pdfUrl a
      \<and> requests ((App_handleSubmit ^^ Suc n) a) = requests a
      \<and> inflight ((App_handleSubmit ^^ Suc n) a) = inflight a
      \<and> run App_step (replicate (Suc n) Submit) a = (App_handleSubmit ^^ Suc n) a)
   \<and> (\<not> loading w \<and> \<not> RG_required_missing w \<and> trim (reportTitle w) = [] \<longrightarrow>
      run RG_step (replicate (Suc n) Submit) w = (handleSubmit ^^ Suc n) w)"
proof (intro conjI impI)
  assume h: "\<not> loading w \<and> \<not> RG_required_missing w \<and> trim (reportTitle w) = []"
  let ?w' = "w\<lparr>error := JStr ''Please enter a report title.'', pdfUrl := None\<rparr>"
  have m: "file_sel w \<noteq> None"
    using h by (simp add: RG_required_missing_def)
  have w': "handleSubmit w = ?w'"
    using h m by (auto simp: handleSubmit_invalid)
  have s1: "RG_step Submit w = ?w'"
    using h by (simp add: w')
  have "handleSubmit ?w' = ?w'"
    using h m by (auto simp: handleSubmit_invalid)
  moreover have "RG_step Submit ?w' = handleSubmit ?w'"
    using h by (auto simp: RG_required_missing_def)
  ultimately have i1: "RG_step Submit (RG_step Submit w) = RG_step Submit w"
    and i2: "handleSubmit (handleSubmit w) = handleSubmit w"
    by (simp_all add: s1 w')
  have "(RG_step Submit ^^ Suc n) w = RG_step Submit w"
    using i1 by (rule funpow_fixed)
  moreover have "(handleSubmit ^^ Suc n) w = handleSubmit w"
    using i2 by (rule funpow_fixed)
  ultimately show "run RG_step (replicate (Suc n) Submit) w = (handleSubmit ^^ Suc n) w"
    by (simp only: run_replicate s1 w')
next
  show "run App_step (replicate (Suc n) Submit) a = (App_handleSubmit ^^ Suc n) a"
  proof -
    have "App_step Submit = App_handleSubmit" by (rule ext) simp
    then show ?thesis by (simp only: run_replicate)
  qed
next
  assume inv: "file_sel w = None \<or> trim (reportTitle w) = []"
  define msg where "msg = JStr (if file_sel w = None then ''Please upload a CSV file.''
                                else ''Please enter a report title.'')"
  let ?w' = "w\<lparr>error := msg, pdfUrl := None\<rparr>"
  have w': "handleSubmit w = ?w'"
    using inv unfolding msg_def by (rule handleSubmit_invalid)
  have "file_sel ?w' = None \<or> trim (reportTitle ?w') = []"
    using inv by simp
  then have "handleSubmit ?w' = ?w'"
    by (simp add: handleSubmit_invalid msg_def)
  then have "handleSubmit (handleSubmit w) = handleSubmit w"
    by (simp add: w')
  then have fixed: "(handleSubmit ^^ Suc n) w = ?w'"
    unfolding w' [symmetric] by (rule funpow_fixed)
  show "(handleSubmit ^^ Suc n) w =
        w\<lparr>error := JStr (if file_sel w = None then ''Please upload a CSV file.''
                           else ''Please enter a report title.''),
          pdfUrl := None\<rparr>"
    unfolding fixed msg_def ..
  show "error ((handleSubmit ^^ Suc n) w) =
          JStr (if file_sel w = None then ''Please upload a CSV file.''
                else ''Please enter a report title.'')"
    unfolding fixed by (simp add: msg_def)
  show "pdfUrl ((handleSubmit ^^ Suc n) w) = None"
    unfolding fixed by simp
  show "loading ((handleSubmit ^^ Suc n) w) = loading w"
    unfolding fixed by simp
  show "RG_kind ((handleSubmit ^^ Suc n) w) = KFailed" if "\<not> loading w"
    unfolding fixed using that by (simp add: RG_kind_def msg_def)
  show "requests ((handleSubmit ^^ Suc n) w) = requests w"
    unfolding fixed by simp
  show "inflight ((handleSubmit ^^ Suc n) w) = inflight w"
    unfolding fixed by simp
next
  assume inv: "name a = [] \<or> file_sel a = None"
  let ?a' = "a\<lparr>error := JStr ''Please enter a name and upload a CSV file.''\<rparr>"
  have a': "App_handleSubmit a = ?a'"
    using inv by (rule App_handleSubmit_invalid)
  have "name ?a' = [] \<or> file_sel ?a' = None"
    using inv by simp
  then have "App_handleSubmit ?a' = ?a'"
    by (simp add: App_handleSubmit_invalid)
  then have "App_handleSubmit (App_handleSubmit a) = App_handleSubmit a"
    by (simp add: a')
  then have fixed: "(App_handleSubmit ^^ Suc n) a = ?a'"
    unfolding a' [symmetric] by (rule funpow_fixed)
  show "(App_handleSubmit ^^ Suc n) a = ?a'"
    by (rule fixed)
  show "error ((App_handleSubmit ^^ Suc n) a) = JStr ''Please enter a name and upload a CSV file.''"
    unfolding fixed by simp
  show "pdfUrl ((App_handleSubmit ^^ Suc n) a) = pdfUrl a"
    unfolding fixed by simp
  show "requests ((App_handleSubmit ^^ Suc n) a) = requests a"
    unfolding fixed by simp
  show "inflight ((App_handleSubmit ^^ Suc n) a) = inflight a"
    unfolding fixed by simp
qed

theorem C9_rejected_submit_idempotent_witness:
  "trim (reportTitle (RG_filled ''  '')) = [] \<and> \<not> loading (RG_filled ''  '')
   \<and> (handleSubmit ^^ Suc 2) (RG_filled ''  '') =
       (RG_filled ''  '')\<lparr>error := JStr ''Please enter a report title.'', pdfUrl := None\<rparr>
   \<and> RG_kind ((handleSubmit ^^ Suc 2) (RG_filled ''  '')) = KFailed
   \<and> requests ((handleSubmit ^^ Suc 2) (RG_filled ''  '')) = requests (RG_filled ''  '')
   \<and> requests (RG_filled ''  '') = []
   \<and> file_sel (App_init\<lparr>name := ''Ann''\<rparr>) = None
   \<and> (App_handleSubmit ^^ Suc 2) (App_init\<lparr>name := ''Ann''\<rparr>) =
       App_init\<lparr>name := ''Ann'', error := JStr ''Please enter a name and upload a CSV file.''\<rparr>
   \<and> requests ((App_handleSubmit ^^ Suc 2) (App_init\<lparr>name := ''Ann''\<rparr>)) = requests (App_init\<lparr>name := ''Ann''\<rparr>)
   \<and> requests (App_init\<lparr>name := ''Ann''\<rparr>) = []
   \<and> \<not> RG_required_missing (RG_filled ''  '')
   \<and> run RG_step (replicate (Suc 2) Submit) (RG_filled ''  '') = (handleSubmit ^^ Suc 2) (RG_filled ''  '')
   \<and> run App_step (replicate (Suc 2) Submit) (App_init\<lparr>name := ''Ann''\<rparr>)
       = (App_handleSubmit ^^ Suc 2) (App_init\<lparr>name := ''Ann''\<rparr>)"
proof -
  have q1: "\<not> RG_required_missing (RG_filled ''  '')"
    by (simp add: RG_required_missing_def RG_filled_def)
  have h1: "trim (reportTitle (RG_filled ''  '')) = []"
    and f1: "file_sel (RG_filled ''  '') \<noteq> None"
    and l1: "\<not> loading (RG_filled ''  '')"
    and r1: "requests (RG_filled ''  '') = []"
    by (simp_all add: RG_filled_def RG_init_def trim_blank2)
  have h2: "file_sel (App_init\<lparr>name := ''Ann''\<rparr>) = None"
    and r2: "requests (App_init\<lparr>name := ''Ann''\<rparr>) = []"
    by (simp_all add: App_init_def)
  note c = C9_rejected_submit_idempotent [of "RG_filled ''  ''" 2 "App_init\<lparr>name := ''Ann''\<rparr>"]
  have 1: "(handleSubmit ^^ Suc 2) (RG_filled ''  '') =
       (RG_filled ''  '')\<lparr>error := JStr ''Please enter a report title.'', pdfUrl := None\<rparr>"
    using c h1 f1 by (simp del: funpow.simps)
  have 2: "RG_kind ((handleSubmit ^^ Suc 2) (RG_filled ''  '')) = KFailed"
    "requests ((handleSubmit ^^ Suc 2) (RG_filled ''  '')) = requests (RG_filled ''  '')"
    using c h1 l1 by blast+
  have 3: "(App_handleSubmit ^^ Suc 2) (App_init\<lparr>name := ''Ann''\<rparr>) =
       App_init\<lparr>name := ''Ann'', error := JStr ''Please enter a name and upload a CSV file.''\<rparr>"
    "requests ((App_handleSubmit ^^ Suc 2) (App_init\<lparr>name := ''Ann''\<rparr>)) = requests (App_init\<lparr>name := ''Ann''\<rparr>)"
    using c h2 by blast+
  have 4: "run RG_step (replicate (Suc 2) Submit) (RG_filled ''  '') = (handleSubmit ^^ Suc 2) (RG_filled ''  '')"
    using c h1 l1 q1 by blast
  have 5: "run App_step (replicate (Suc 2) Submit) (App_init\<lparr>name := ''Ann''\<rparr>)
       = (App_handleSubmit ^^ Suc 2) (App_init\<lparr>name := ''Ann''\<rparr>)"
    using c h2 by blast
  show ?thesis using h1 l1 r1 h2 r2 q1 1 2 3 4 5 by blast
qed

text \<open>
  C1, as stated, fails twice. In ReportGenerator a blank title with no file selected gets
  the file message, not the title message. In App a name of two spaces with a file selected
  is accepted: a request leaves and no message is set.
\<close>

theorem C1_blank_title_counterexample:
  "trim (reportTitle (RG_init\<lparr>reportTitle := ''  ''\<rparr>)) = []
   \<and> error (handleSubmit (RG_init\<lparr>reportTitle := ''  ''\<rparr>)) = JStr ''Please upload a CSV file.''
   \<and> trim (name (App_filled ''  '')) = []
   \<and> length (requests (App_handleSubmit (App_filled ''  ''))) = 1
   \<and> error (App_handleSubmit (App_filled ''  '')) = JNull"
  by (simp add: trim_blank2 RG_init_def handleSubmit_def App_filled_def App_init_def
        App_handleSubmit_def analyzeData_def fetch_def Let_def)

text \<open>
  C1, amended. In ReportGenerator, a submit with a file selected and a title that is empty
  after trimming issues no request and sets the message "Please enter a report title.".
  In App, a submit with an empty name issues no request and sets the combined message
  "Please enter a name and upload a CSV file.".
\<close>

theorem C1_blank_title_rejected:
  "(file_sel w \<noteq> None \<and> trim (reportTitle w) = [] \<longrightarrow>
      handleSubmit w = w\<lparr>error := JStr ''Please enter a report title.'', pdfUrl := None\<rparr>
      \<and> requests (handleSubmit w) = requests w
      \<and> inflight (handleSubmit w) = inflight w)
   \<and> (name a = [] \<longrightarrow>
      App_handleSubmit a = a\<lparr>error := JStr ''Please enter a name and upload a CSV file.''\<rparr>
      \<and> requests (App_handleSubmit a) = requests a
      \<and> inflight (App_handleSubmit a) = inflight a)"
  by (simp add: handleSubmit_invalid App_handleSubmit_invalid)

theorem C1_blank_title_rejected_witness:
  "file_sel (RG_filled ''  '') \<noteq> None \<and> trim (reportTitle (RG_filled ''  '')) = []
   \<and> handleSubmit (RG_filled ''  '') =
       (RG_filled ''  '')\<lparr>error := JStr ''Please enter a report title.'', pdfUrl := None\<rparr>
   \<and> requests (handleSubmit (RG_filled ''  '')) = requests (RG_filled ''  '')
   \<and> name (App_filled []) = []
   \<and> App_handleSubmit (App_filled []) =
       (App_filled [])\<lparr>error := JStr ''Please enter a name and upload a CSV file.''\<rparr>
   \<and> requests (App_handleSubmit (App_filled [])) = requests (App_filled [])"
proof -
  have h1: "file_sel (RG_filled ''  '') \<noteq> None \<and> trim (reportTitle (RG_filled ''  '')) = []"
    by (simp add: RG_filled_def trim_blank2)
  have h2: "name (App_filled []) = []"
    by (simp add: App_filled_def)
  show ?thesis
    using C1_blank_title_rejected [of "RG_filled ''  ''" "App_filled []"] h1 h2 by blast
qed

section \<open>The request of a valid submit\<close>






section \<open>How a settled request ends\<close>

lemma ok_bad_data: "\<not> ok bad_data_response"
  by (simp add: ok_def bad_data_response_def)

lemma ok_html_error: "\<not> ok html_error_response"
  by (simp add: ok_def html_error_response_def)

lemma decimal_500: "decimal 500 = ''500''"
  by code_simp

text \<open>The state after each way a request can end in failure.\<close>

lemma App_resume_not_ok:
  "\<not> ok r \<Longrightarrow>
   App_handleSubmit_resume (Responded r) a =
     a\<lparr>inflight := inflight a - 1,
       error := JStr (''Failed to generate PDF: Server error: '' @ decimal (status r))\<rparr>"
  by (simp add: App_handleSubmit_resume_def analyzeData_resume_def)

lemma RG_resume_not_ok_json:
  "\<not> ok r \<Longrightarrow> json_result r = Inr v \<Longrightarrow> prop_error v = Inr e \<Longrightarrow>
   handleSubmit_resume (Responded r) w =
     w\<lparr>inflight := inflight w - 1, error := js_or e (JStr ''Failed to generate report.''),
       loading := False\<rparr>"
  by (simp add: handleSubmit_resume_def Let_def)

lemma RG_resume_not_ok_unparsed:
  "\<not> ok r \<Longrightarrow> json_result r = Inl m \<Longrightarrow>
   handleSubmit_resume (Responded r) w =
     w\<lparr>inflight := inflight w - 1, error := JStr ''Network error. Please try again.'',
       loading := False\<rparr>"
  by (simp add: handleSubmit_resume_def RG_catch_def Let_def)

lemma RG_resume_rejected:
  "handleSubmit_resume (Rejected m) w =
     w\<lparr>inflight := inflight w - 1, error := JStr ''Network error. Please try again.'',
       loading := False\<rparr>"
  by (simp add: handleSubmit_resume_def RG_catch_def Let_def)

lemma App_resume_rejected:
  "App_handleSubmit_resume (Rejected m) a =
     a\<lparr>inflight := inflight a - 1, error := JStr (''Failed to generate PDF: '' @ m)\<rparr>"
  by (simp add: App_handleSubmit_resume_def analyzeData_resume_def)

text \<open>
  C3, as stated, fails. App never reads the body: for 500 with the body
  {"error":"bad data"} its message is "Failed to generate PDF: Server error: 500". In
  ReportGenerator an \<^verbatim>\<open>error\<close> field holding the empty string is replaced by
  "Failed to generate report.".
\<close>

theorem C3_server_message_counterexample:
  "\<not> ok bad_data_response
   \<and> json_result bad_data_response = Inr (JObj [(''error'', JStr ''bad data'')])
   \<and> error (App_handleSubmit_resume (Responded bad_data_response) (App_handleSubmit (App_filled ''Report'')))
       = JStr ''Failed to generate PDF: Server error: 500''
   \<and> error (handleSubmit_resume
         (Responded (bad_data_response\<lparr>json_result := Inr (JObj [(''error'', JStr [])])\<rparr>))
         (handleSubmit (RG_filled ''Report'')))
       = JStr ''Failed to generate report.''"
proof -
  have 1: "\<not> ok (bad_data_response\<lparr>json_result := Inr (JObj [(''error'', JStr [])])\<rparr>)"
    by (simp add: ok_def bad_data_response_def)
  have 2: "status bad_data_response = 500"
    by (simp add: bad_data_response_def)
  show ?thesis
    by (simp add: ok_bad_data App_resume_not_ok RG_resume_not_ok_json [OF 1, where e = "JStr []"]
          js_or_def 2 decimal_500) (simp add: bad_data_response_def)
qed

text \<open>
  C3, amended. In ReportGenerator, when the response is not ok and its body parses to a
  value whose \<^verbatim>\<open>error\<close> property is truthy (a non-empty string, for one), the state
  becomes Failed with exactly that value and \<^verbatim>\<open>loading\<close> is cleared. In App the message
  is "Failed to generate PDF: Server error: " followed by the status, whatever the body.
\<close>

theorem C3_server_message:
  "(\<not> ok r \<and> json_result r = Inr v \<and> prop_error v = Inr e \<and> truthy e \<longrightarrow>
      error (handleSubmit_resume (Responded r) w) = e
      \<and> loading (handleSubmit_resume (Responded r) w) = False
      \<and> pdfUrl (handleSubmit_resume (Responded r) w) = pdfUrl w)
   \<and> (\<not> ok r \<and> json_result r = Inr (JObj kvs) \<and> map_of kvs ''error'' = Some (JStr m) \<and> m \<noteq> [] \<longrightarrow>
      error (handleSubmit_resume (Responded r) w) = JStr m)
   \<and> (\<not> ok r \<longrightarrow>
      error (App_handleSubmit_resume (Responded r) a) =
        JStr (''Failed to generate PDF: Server error: '' @ decimal (status r)))"
proof (intro conjI impI)
  assume "\<not> ok r \<and> json_result r = Inr v \<and> prop_error v = Inr e \<and> truthy e"
  then have eq: "handleSubmit_resume (Responded r) w =
      w\<lparr>inflight := inflight w - 1, error := e, loading := False\<rparr>"
    by (simp add: RG_resume_not_ok_json js_or_def)
  show "error (handleSubmit_resume (Responded r) w) = e"
    and "loading (handleSubmit_resume (Responded r) w) = False"
    and "pdfUrl (handleSubmit_resume (Responded r) w) = pdfUrl w"
    by (simp_all add: eq)
next
  assume h: "\<not> ok r \<and> json_result r = Inr (JObj kvs) \<and> map_of kvs ''error'' = Some (JStr m) \<and> m \<noteq> []"
  then have "prop_error (JObj kvs) = Inr (JStr m)" by simp
  with h show "error (handleSubmit_resume (Responded r) w) = JStr m"
    by (simp add: RG_resume_not_ok_json js_or_def)
next
  assume "\<not> ok r"
  then show "error (App_handleSubmit_resume (Responded r) a) =
        JStr (''Failed to generate PDF: Server error: '' @ decimal (status r))"
    by (simp add: App_resume_not_ok)
qed

theorem C3_server_message_witness:
  "\<not> ok bad_data_response
   \<and> json_result bad_data_response = Inr (JObj [(''error'', JStr ''bad data'')])
   \<and> map_of [(''error'', JStr ''bad data'')] ''error'' = Some (JStr ''bad data'') \<and> ''bad data'' \<noteq> []
   \<and> prop_error (JObj [(''error'', JStr ''bad data'')]) = Inr (JStr ''bad data'')
   \<and> truthy (JStr ''bad data'')
   \<and> error (handleSubmit_resume (Responded bad_data_response) (handleSubmit (RG_filled ''Report'')))
       = JStr ''bad data''
   \<and> loading (handleSubmit_resume (Responded bad_data_response) (handleSubmit (RG_filled ''Report'')))
       = False
   \<and> error (App_handleSubmit_resume (Responded bad_data_response) (App_handleSubmit (App_filled ''Report'')))
       = JStr (''Failed to generate PDF: Server error: '' @ decimal (status bad_data_response))"
proof -
  have h: "\<not> ok bad_data_response"
    "json_result bad_data_response = Inr (JObj [(''error'', JStr ''bad data'')])"
    "map_of [(''error'', JStr ''bad data'')] ''error'' = Some (JStr ''bad data'')"
    "''bad data'' \<noteq> []"
    "prop_error (JObj [(''error'', JStr ''bad data'')]) = Inr (JStr ''bad data'')"
    "truthy (JStr ''bad data'')"
    by (simp_all add: ok_bad_data) (simp add: bad_data_response_def)
  show ?thesis
    using C3_server_message [of bad_data_response "JObj [(''error'', JStr ''bad data'')]"
        "JStr ''bad data''" "handleSubmit (RG_filled ''Report'')" "[(''error'', JStr ''bad data'')]"
        "''bad data''" "App_handleSubmit (App_filled ''Report'')"] h
    by blast
qed

text \<open>
  C4, as stated, fails in ReportGenerator: a response that is not ok and whose body is not
  JSON ends in the \<^verbatim>\<open>catch\<close>, with "Network error. Please try again." for status 500 and
  for status 404 alike.
\<close>

theorem C4_status_in_message_counterexample:
  "\<not> ok html_error_response \<and> status html_error_response = 500
   \<and> json_result html_error_response = Inl ''SyntaxError''
   \<and> error (handleSubmit_resume (Responded html_error_response) (handleSubmit (RG_filled ''Report'')))
       = JStr ''Network error. Please try again.''
   \<and> \<not> ok (html_error_response\<lparr>status := 404\<rparr>)
   \<and> error (handleSubmit_resume (Responded (html_error_response\<lparr>status := 404\<rparr>))
         (handleSubmit (RG_filled ''Report'')))
       = JStr ''Network error. Please try again.''"
proof -
  have 1: "\<not> ok (html_error_response\<lparr>status := 404\<rparr>)"
    by (simp add: ok_def)
  have 2: "json_result html_error_response = Inl ''SyntaxError''"
    "status html_error_response = 500"
    by (simp_all add: html_error_response_def)
  show ?thesis
    by (simp add: 1 2 ok_html_error RG_resume_not_ok_unparsed [where m = "''SyntaxError''"])
qed

text \<open>
  C4, amended. In App, every response that is not ok gives the message
  "Failed to generate PDF: Server error: " followed by the status; no object URL is
  created and \<^verbatim>\<open>pdfUrl\<close> keeps its value. In ReportGenerator, a response that is not ok
  and whose body cannot be parsed gives "Network error. Please try again."; no object URL
  is created and \<^verbatim>\<open>pdfUrl\<close> keeps its value.
\<close>

theorem C4_unparsed_error_body:
  "(\<not> ok r \<longrightarrow>
      error (App_handleSubmit_resume (Responded r) a) =
        JStr (''Failed to generate PDF: Server error: '' @ decimal (status r))
      \<and> pdfUrl (App_handleSubmit_resume (Responded r) a) = pdfUrl a
      \<and> blob_urls (App_handleSubmit_resume (Responded r) a) = blob_urls a)
   \<and> (\<not> ok r \<and> json_result r = Inl m \<longrightarrow>
      error (handleSubmit_resume (Responded r) w) = JStr ''Network error. Please try again.''
      \<and> loading (handleSubmit_resume (Responded r) w) = False
      \<and> pdfUrl (handleSubmit_resume (Responded r) w) = pdfUrl w
      \<and> blob_urls (handleSubmit_resume (Responded r) w) = blob_urls w)"
  by (simp add: App_resume_not_ok RG_resume_not_ok_unparsed)

theorem C4_unparsed_error_body_witness:
  "\<not> ok html_error_response \<and> json_result html_error_response = Inl ''SyntaxError''
   \<and> error (App_handleSubmit_resume (Responded html_error_response) (App_handleSubmit (App_filled ''Report'')))
       = JStr ''Failed to generate PDF: Server error: 500''
   \<and> pdfUrl (App_handleSubmit_resume (Responded html_error_response) (App_handleSubmit (App_filled ''Report'')))
       = pdfUrl (App_handleSubmit (App_filled ''Report''))
   \<and> error (handleSubmit_resume (Responded html_error_response) (handleSubmit (RG_filled ''Report'')))
       = JStr ''Network error. Please try again.''
   \<and> pdfUrl (handleSubmit_resume (Responded html_error_response) (handleSubmit (RG_filled ''Report'')))
       = pdfUrl (handleSubmit (RG_filled ''Report''))"
proof -
  have h: "json_result html_error_response = Inl ''SyntaxError''"
    and s: "status html_error_response = 500"
    by (simp_all add: html_error_response_def)
  show ?thesis
    using C4_unparsed_error_body [of html_error_response "App_handleSubmit (App_filled ''Report'')"
        "''SyntaxError''" "handleSubmit (RG_filled ''Report'')"] ok_html_error h
    by (simp add: s decimal_500)
qed

text \<open>
  C5, as stated, fails in ReportGenerator: a fetch that rejects and a 500 response whose
  body is not JSON give the same message.
\<close>

theorem C5_network_message_counterexample:
  "\<not> ok html_error_response
   \<and> error (handleSubmit_resume (Rejected ''Failed to fetch'') (handleSubmit (RG_filled ''Report'')))
       = JStr ''Network error. Please try again.''
   \<and> error (handleSubmit_resume (Responded html_error_response) (handleSubmit (RG_filled ''Report'')))
       = JStr ''Network error. Please try again.''"
proof -
  have 2: "json_result html_error_response = Inl ''SyntaxError''"
    by (simp add: html_error_response_def)
  show ?thesis
    by (simp add: 2 ok_html_error RG_resume_rejected RG_resume_not_ok_unparsed [where m = "''SyntaxError''"])
qed

text \<open>
  C5, amended. In ReportGenerator a fetch that rejects gives "Network error. Please try
  again." and clears \<^verbatim>\<open>loading\<close>; a response that is not ok gives another message
  whenever its body parses to a value with a readable \<^verbatim>\<open>error\<close> property other than that
  very text. In App a fetch that rejects with message m gives "Failed to generate PDF: "
  followed by m, which differs from the message of a response that is not ok unless m is
  "Server error: " followed by that status.
\<close>

theorem C5_network_message:
  "error (handleSubmit_resume (Rejected m) w) = JStr ''Network error. Please try again.''
   \<and> loading (handleSubmit_resume (Rejected m) w) = False
   \<and> pdfUrl (handleSubmit_resume (Rejected m) w) = pdfUrl w
   \<and> (\<not> ok r \<and> json_result r = Inr v \<and> prop_error v = Inr e
        \<and> e \<noteq> JStr ''Network error. Please try again.'' \<longrightarrow>
      error (handleSubmit_resume (Responded r) w) \<noteq> error (handleSubmit_resume (Rejected m) w))
   \<and> error (App_handleSubmit_resume (Rejected m) a) = JStr (''Failed to generate PDF: '' @ m)
   \<and> (\<not> ok r \<and> m \<noteq> ''Server error: '' @ decimal (status r) \<longrightarrow>
      error (App_handleSubmit_resume (Responded r) a) \<noteq> error (App_handleSubmit_resume (Rejected m) a))"
proof (intro conjI impI)
  assume h: "\<not> ok r \<and> json_result r = Inr v \<and> prop_error v = Inr e
        \<and> e \<noteq> JStr ''Network error. Please try again.''"
  then have "error (handleSubmit_resume (Responded r) w) = js_or e (JStr ''Failed to generate report.'')"
    by (simp add: RG_resume_not_ok_json)
  moreover have "js_or e (JStr ''Failed to generate report.'') \<noteq> JStr ''Network error. Please try again.''"
    using h by (simp add: js_or_def)
  ultimately show "error (handleSubmit_resume (Responded r) w) \<noteq> error (handleSubmit_resume (Rejected m) w)"
    by (simp add: RG_resume_rejected)
next
  assume "\<not> ok r \<and> m \<noteq> ''Server error: '' @ decimal (status r)"
  then show "error (App_handleSubmit_resume (Responded r) a) \<noteq> error (App_handleSubmit_resume (Rejected m) a)"
    by (auto simp add: App_resume_not_ok App_resume_rejected)
qed (simp_all add: RG_resume_rejected App_resume_rejected)

theorem C5_network_message_witness:
  "\<not> ok bad_data_response
   \<and> json_result bad_data_response = Inr (JObj [(''error'', JStr ''bad data'')])
   \<and> prop_error (JObj [(''error'', JStr ''bad data'')]) = Inr (JStr ''bad data'')
   \<and> JStr ''bad data'' \<noteq> JStr ''Network error. Please try again.''
   \<and> ''Failed to fetch'' \<noteq> ''Server error: '' @ decimal (status bad_data_response)
   \<and> error (handleSubmit_resume (Rejected ''Failed to fetch'') (handleSubmit (RG_filled ''Report'')))
       = JStr ''Network error. Please try again.''
   \<and> error (handleSubmit_resume (Responded bad_data_response) (handleSubmit (RG_filled ''Report'')))
       \<noteq> error (handleSubmit_resume (Rejected ''Failed to fetch'') (handleSubmit (RG_filled ''Report'')))
   \<and> error (App_handleSubmit_resume (Rejected ''Failed to fetch'') (App_handleSubmit (App_filled ''Report'')))
       = JStr (''Failed to generate PDF: '' @ ''Failed to fetch'')
   \<and> error (App_handleSubmit_resume (Responded bad_data_response) (App_handleSubmit (App_filled ''Report'')))
       \<noteq> error (App_handleSubmit_resume (Rejected ''Failed to fetch'') (App_handleSubmit (App_filled ''Report'')))"
proof -
  have h: "\<not> ok bad_data_response"
    "json_result bad_data_response = Inr (JObj [(''error'', JStr ''bad data'')])"
    "prop_error (JObj [(''error'', JStr ''bad data'')]) = Inr (JStr ''bad data'')"
    "JStr ''bad data'' \<noteq> JStr ''Network error. Please try again.''"
    "''Failed to fetch'' \<noteq> ''Server error: '' @ decimal (status bad_data_response)"
    by (simp_all add: ok_bad_data) (simp add: bad_data_response_def)
  show ?thesis
    using C5_network_message [of "''Failed to fetch''" "handleSubmit (RG_filled ''Report'')"
        bad_data_response "JObj [(''error'', JStr ''bad data'')]" "JStr ''bad data''"
        "App_handleSubmit (App_filled ''Report'')"] h
    by blast
qed

section \<open>Sequences of events\<close>

text \<open>A property of the initial state that every step keeps holds after every run.\<close>

lemma run_invariant:
  assumes "P w" and "\<And>e v. P v \<Longrightarrow> P (step e v)"
  shows "P (run step es w)"
  using assms(1) by (induction es arbitrary: w) (simp_all add: assms(2))

lemma js_or_not_null: "b \<noteq> JNull \<Longrightarrow> js_or a b \<noteq> JNull"
  by (cases a) (simp_all add: js_or_def)

lemma RG_inv_init: "RG_inv RG_init"
  by (simp add: RG_inv_def RG_init_def)

lemma RG_inv_handleSubmit: "RG_inv w \<Longrightarrow> \<not> loading w \<Longrightarrow> RG_inv (handleSubmit w)"
  by (auto simp: RG_inv_def handleSubmit_def fetch_def Let_def split: option.splits)

lemma RG_inv_resume: "RG_inv w \<Longrightarrow> inflight w \<noteq> 0 \<Longrightarrow> RG_inv (handleSubmit_resume oc w)"
  by (auto simp: RG_inv_def handleSubmit_resume_def RG_catch_def createObjectURL_def Let_def
           js_or_not_null
           split: outcome.splits sum.splits if_splits)

lemma RG_inv_step: "RG_inv w \<Longrightarrow> RG_inv (RG_step e w)"
proof (cases e)
  case (SetTitle t)
  assume "RG_inv w" then show ?thesis using SetTitle by (simp add: RG_inv_def)
next
  case (SetFile f)
  assume "RG_inv w" then show ?thesis using SetFile by (simp add: RG_inv_def)
next
  case Submit
  assume "RG_inv w" then show ?thesis using Submit by (simp add: RG_inv_handleSubmit)
next
  case (Settle oc)
  assume "RG_inv w" then show ?thesis using Settle by (simp add: RG_inv_resume)
qed

lemma RG_inv_run: "RG_inv (run RG_step evs RG_init)"
  by (rule run_invariant [where P = RG_inv and step = RG_step]) (simp_all add: RG_inv_init RG_inv_step)

text \<open>
  C6, as stated, fails in App, which has no \<^verbatim>\<open>loading\<close> flag: two submits in a row leave
  two requests in flight.
\<close>

theorem C6_single_flight_counterexample:
  "inflight (run App_step [SetTitle ''Ann'', SetFile (Some sample_csv), Submit, Submit] App_init) = 2
   \<and> length (requests (run App_step [SetTitle ''Ann'', SetFile (Some sample_csv), Submit, Submit] App_init)) = 2"
  by (simp add: App_init_def App_handleSubmit_def analyzeData_def fetch_def Let_def)

text \<open>
  C6, amended. In ReportGenerator, after any sequence of events at most one request is
  in flight: one while \<^verbatim>\<open>loading\<close>, none otherwise; and a submit while \<^verbatim>\<open>loading\<close> changes
  nothing, so it issues no request. In App every accepted submit adds a request in
  flight.
\<close>

theorem C6_single_flight:
  "inflight (run RG_step evs RG_init) \<le> 1
   \<and> inflight (run RG_step evs RG_init) = (if loading (run RG_step evs RG_init) then 1 else 0)
   \<and> (loading (run RG_step evs RG_init) \<longrightarrow>
        RG_step Submit (run RG_step evs RG_init) = run RG_step evs RG_init)
   \<and> (file_sel a \<noteq> None \<and> name a \<noteq> [] \<longrightarrow>
        inflight (App_step Submit a) = inflight a + 1)"
proof -
  have "file_sel a \<noteq> None \<and> name a \<noteq> [] \<longrightarrow> inflight (App_step Submit a) = inflight a + 1"
    by (auto simp: App_handleSubmit_def analyzeData_def fetch_def Let_def)
  then show ?thesis
    using RG_inv_run [of evs] by (simp add: RG_inv_def)
qed

theorem C6_single_flight_witness:
  "loading (run RG_step [SetTitle ''Report'', SetFile (Some sample_csv), Submit] RG_init)
   \<and> inflight (run RG_step [SetTitle ''Report'', SetFile (Some sample_csv), Submit] RG_init) = 1
   \<and> RG_step Submit (run RG_step [SetTitle ''Report'', SetFile (Some sample_csv), Submit] RG_init)
       = run RG_step [SetTitle ''Report'', SetFile (Some sample_csv), Submit] RG_init
   \<and> file_sel (App_handleSubmit (App_filled ''Ann'')) \<noteq> None
   \<and> name (App_handleSubmit (App_filled ''Ann'')) \<noteq> []
   \<and> inflight (App_step Submit (App_handleSubmit (App_filled ''Ann'')))
       = inflight (App_handleSubmit (App_filled ''Ann'')) + 1"
proof -
  have a: "file_sel (App_handleSubmit (App_filled ''Ann'')) \<noteq> None"
    "name (App_handleSubmit (App_filled ''Ann'')) \<noteq> []"
    by (simp_all add: App_filled_def App_init_def App_handleSubmit_def analyzeData_def fetch_def Let_def)
  have t: "trim ''Report'' = ''Report''"
    by (simp add: trim_def isWhiteSpace_def)
  have h: "loading (run RG_step [SetTitle ''Report'', SetFile (Some sample_csv), Submit] RG_init)"
    by (simp add: RG_init_def RG_required_missing_def handleSubmit_def fetch_def Let_def t)
  show ?thesis
    using C6_single_flight [of "[SetTitle ''Report'', SetFile (Some sample_csv), Submit]"
        "App_handleSubmit (App_filled ''Ann'')"] h a
    by simp
qed

text \<open>The blob URL store: what is in it stays in it, and each new URL is new.\<close>

lemma store_inv_createObjectURL:
  "store_inv w \<Longrightarrow> store_inv (snd (createObjectURL b w))"
  by (auto simp: store_inv_def createObjectURL_def list_all_iff)

lemma store_inv_fresh:
  "store_inv w \<Longrightarrow> BlobURL (url_counter w) \<notin> fst ` set (blob_urls w)"
proof
  assume inv: "store_inv w" and "BlobURL (url_counter w) \<in> fst ` set (blob_urls w)"
  then obtain p where p: "p \<in> set (blob_urls w)" "fst p = BlobURL (url_counter w)"
    by auto
  from inv p(1) have "url_id (fst p) < url_counter w"
    by (simp add: store_inv_def list_all_iff)
  with p(2) show False by simp
qed

lemma RG_store_inv_step: "store_inv w \<Longrightarrow> store_inv (RG_step e w)"
  by (cases e)
     (auto simp: store_inv_def handleSubmit_def handleSubmit_resume_def RG_catch_def fetch_def
           createObjectURL_def Let_def list_all_iff
           split: option.splits outcome.splits sum.splits)

lemma App_store_inv_step: "store_inv w \<Longrightarrow> store_inv (App_step e w)"
  by (cases e)
     (auto simp: store_inv_def App_handleSubmit_def App_handleSubmit_resume_def
           analyzeData_def analyzeData_resume_def fetch_def
           createObjectURL_def Let_def list_all_iff
           split: option.splits outcome.splits sum.splits)

lemma RG_store_inv_run: "store_inv (run RG_step evs RG_init)"
  by (rule run_invariant [where P = store_inv and step = RG_step])
     (simp_all add: RG_store_inv_step, simp add: store_inv_def RG_init_def)

lemma App_store_inv_run: "store_inv (run App_step evs App_init)"
  by (rule run_invariant [where P = store_inv and step = App_step])
     (simp_all add: App_store_inv_step, simp add: store_inv_def App_init_def)

lemma RG_resume_success:
  "ok r \<Longrightarrow> blob_result r = Inr b \<Longrightarrow>
   handleSubmit_resume (Responded r) w =
     w\<lparr>inflight := inflight w - 1,
       blob_urls := blob_urls w @ [(BlobURL (url_counter w), b)],
       url_counter := url_counter w + 1,
       pdfUrl := Some (BlobURL (url_counter w)), loading := False\<rparr>"
  by (simp add: handleSubmit_resume_def createObjectURL_def Let_def)

lemma App_resume_success:
  "ok r \<Longrightarrow> blob_result r = Inr b \<Longrightarrow>
   App_handleSubmit_resume (Responded r) a =
     a\<lparr>inflight := inflight a - 1,
       blob_urls := blob_urls a @ [(BlobURL (url_counter a), b)],
       url_counter := url_counter a + 1,
       pdfUrl := Some (BlobURL (url_counter a))\<rparr>"
  by (simp add: App_handleSubmit_resume_def analyzeData_resume_def createObjectURL_def)

lemma RG_blob_urls_kept:
  "take (length (blob_urls w)) (blob_urls (RG_step e w)) = blob_urls w"
  by (cases e)
     (auto simp: handleSubmit_def handleSubmit_resume_def RG_catch_def fetch_def
           createObjectURL_def Let_def
           split: option.splits outcome.splits sum.splits)

lemma App_blob_urls_kept:
  "take (length (blob_urls a)) (blob_urls (App_step e a)) = blob_urls a"
  by (cases e)
     (auto simp: App_handleSubmit_def App_handleSubmit_resume_def
           analyzeData_def analyzeData_resume_def fetch_def
           createObjectURL_def Let_def
           split: option.splits outcome.splits sum.splits)

text \<open>Each step of ReportGenerator is a step of the machine, from a state of the invariant.\<close>

lemma RG_kind_step:
  assumes "RG_inv w"
  shows "case RG_spec_event e w of
           None \<Rightarrow> RG_kind (RG_step e w) = RG_kind w
         | Some ev \<Rightarrow>
             (case spec_next (RG_kind w) ev of
                Some k \<Rightarrow> RG_kind (RG_step e w) = k
              | None \<Rightarrow> RG_step e w = w)"
proof (cases e)
  case (SetTitle t)
  then show ?thesis by (simp add: RG_kind_def)
next
  case (SetFile f)
  then show ?thesis by (simp add: RG_kind_def)
next
  case Submit
  show ?thesis
  proof (cases "loading w")
    case True
    then show ?thesis using Submit by (simp add: RG_kind_def)
  next
    case False
    then show ?thesis using Submit
      by (auto simp: RG_kind_def RG_valid_def handleSubmit_def fetch_def Let_def
               split: option.splits)
  qed
next
  case (Settle oc)
  show ?thesis
  proof (cases "loading w")
    case False
    with assms have "inflight w = 0" by (simp add: RG_inv_def)
    then show ?thesis using Settle False
      by (auto simp: RG_kind_def)
  next
    case True
    with assms have w: "inflight w \<noteq> 0" "error w = JNull" "pdfUrl w = None"
      by (simp_all add: RG_inv_def)
    show ?thesis
    proof (cases "succeeded oc")
      case True
      then obtain r b where "oc = Responded r" "ok r" "blob_result r = Inr b"
        by (cases oc) (auto split: sum.splits)
      then show ?thesis using Settle \<open>loading w\<close> w
        by (simp add: RG_kind_def RG_resume_success)
    next
      case False
      have "error (handleSubmit_resume oc w) \<noteq> JNull \<and> \<not> loading (handleSubmit_resume oc w)"
        using False
        by (auto simp: handleSubmit_resume_def RG_catch_def Let_def js_or_not_null
                 split: outcome.splits sum.splits)
      then show ?thesis using Settle \<open>loading w\<close> w False
        by (simp add: RG_kind_def)
    qed
  qed
qed

lemma ok_pdf: "ok pdf_response"
  by (simp add: ok_def pdf_response_def)

lemma blob_pdf: "blob_result pdf_response = Inr sample_pdf"
  by (simp add: pdf_response_def)

lemma trim_Report: "trim ''Report'' = ''Report''"
  by (simp add: trim_def isWhiteSpace_def)

text \<open>
  C7, as stated, fails in App, which never clears \<^verbatim>\<open>pdfUrl\<close> and has no Pending state:
  after a successful submission, a rejected submit leaves the preview and the message set
  together.
\<close>

theorem C7_state_machine_counterexample:
  "pdfUrl (App_after [SetTitle ''Ann'', SetFile (Some sample_csv), Submit,
                      Settle (Responded pdf_response), SetFile None, Submit]) = Some (BlobURL 0)
   \<and> error (App_after [SetTitle ''Ann'', SetFile (Some sample_csv), Submit,
                       Settle (Responded pdf_response), SetFile None, Submit])
       = JStr ''Please enter a name and upload a CSV file.''"
  by (simp add: App_init_def App_handleSubmit_def analyzeData_def fetch_def Let_def
        App_resume_success [OF ok_pdf blob_pdf])

text \<open>
  C7, amended. In ReportGenerator, after any sequence of events, at most one of
  \<^verbatim>\<open>loading\<close>, \<^verbatim>\<open>error\<close> and \<^verbatim>\<open>pdfUrl\<close> is set, so exactly one of Idle, Pending, Success
  and Failed holds; and every step follows the machine of the specification. A submit
  that reaches the handler, or a settled request, moves to the state the machine names:
  a valid submit to Pending, a resolve to Success or Failed, and an invalid submit (a
  title of white space only, with a file chosen) to Failed without entering Pending. A
  submit while Pending, and a submit with no file or an empty title, which the
  \<^verbatim>\<open>required\<close> inputs block, leave the state as it is. Editing a field keeps the
  Submission Result.
\<close>

theorem C7_state_machine:
  "(loading (RG_after evs) \<longrightarrow> error (RG_after evs) = JNull \<and> pdfUrl (RG_after evs) = None)
   \<and> (error (RG_after evs) \<noteq> JNull \<longrightarrow> pdfUrl (RG_after evs) = None)
   \<and> (case RG_spec_event e (RG_after evs) of
         None \<Rightarrow> RG_kind (RG_step e (RG_after evs)) = RG_kind (RG_after evs)
       | Some ev \<Rightarrow>
           (case spec_next (RG_kind (RG_after evs)) ev of
              Some k \<Rightarrow> RG_kind (RG_step e (RG_after evs)) = k
            | None \<Rightarrow> RG_step e (RG_after evs) = RG_after evs))
   \<and> (RG_required_missing (RG_after evs) \<longrightarrow> RG_step Submit (RG_after evs) = RG_after evs)"
proof (intro conjI)
  have inv: "RG_inv (RG_after evs)" by (rule RG_inv_run)
  show "loading (RG_after evs) \<longrightarrow> error (RG_after evs) = JNull \<and> pdfUrl (RG_after evs) = None"
    using inv by (simp add: RG_inv_def split: if_splits)
  show "error (RG_after evs) \<noteq> JNull \<longrightarrow> pdfUrl (RG_after evs) = None"
    using inv by (auto simp: RG_inv_def split: if_splits)
  show "case RG_spec_event e (RG_after evs) of
         None \<Rightarrow> RG_kind (RG_step e (RG_after evs)) = RG_kind (RG_after evs)
       | Some ev \<Rightarrow>
           (case spec_next (RG_kind (RG_after evs)) ev of
              Some k \<Rightarrow> RG_kind (RG_step e (RG_after evs)) = k
            | None \<Rightarrow> RG_step e (RG_after evs) = RG_after evs)"
    using inv by (rule RG_kind_step)
  show "RG_required_missing (RG_after evs) \<longrightarrow> RG_step Submit (RG_after evs) = RG_after evs"
    by simp
qed

lemma RG_after_second_pending:
  "RG_after second_pending =
     \<lparr>file_sel = Some sample_csv, pdfUrl = None, error = JNull,
      requests = [\<lparr>req_url = ''http://localhost:8000/api/analyze'', req_method = ''POST'',
                   req_body = [(''file'', FileEntry sample_csv), (''reportTitle'', TextEntry ''Report'')]\<rparr>,
                  \<lparr>req_url = ''http://localhost:8000/api/analyze'', req_method = ''POST'',
                   req_body = [(''file'', FileEntry sample_csv), (''reportTitle'', TextEntry ''Report'')]\<rparr>],
      inflight = 1, blob_urls = [(BlobURL 0, sample_pdf)], url_counter = 1,
      reportTitle = ''Report'', loading = True\<rparr>"
  by (simp add: second_pending_def RG_init_def RG_required_missing_def handleSubmit_def fetch_def
        append_entry_def Let_def trim_Report RG_resume_success [OF ok_pdf blob_pdf])

theorem C7_state_machine_witness:
  "loading (RG_after second_pending)
   \<and> error (RG_after second_pending) = JNull \<and> pdfUrl (RG_after second_pending) = None
   \<and> RG_spec_event (Settle (Responded pdf_response)) (RG_after second_pending) = Some ResolveOk
   \<and> spec_next (RG_kind (RG_after second_pending)) ResolveOk = Some KSuccess
   \<and> RG_kind (RG_step (Settle (Responded pdf_response)) (RG_after second_pending)) = KSuccess
   \<and> RG_spec_event Submit (RG_after [SetTitle ''  '', SetFile (Some sample_csv)]) = Some SubmitInvalid
   \<and> spec_next (RG_kind (RG_after [SetTitle ''  '', SetFile (Some sample_csv)])) SubmitInvalid = Some KFailed
   \<and> RG_kind (RG_step Submit (RG_after [SetTitle ''  '', SetFile (Some sample_csv)])) = KFailed
   \<and> RG_required_missing (RG_after [])
   \<and> RG_step Submit (RG_after []) = RG_after []"
proof -
  have h: "loading (RG_after second_pending)"
    and k: "RG_kind (RG_after second_pending) = KPending"
    by (simp_all add: RG_after_second_pending RG_kind_def)
  have e: "RG_spec_event (Settle (Responded pdf_response)) (RG_after second_pending) = Some ResolveOk"
    by (simp add: ok_pdf blob_pdf)
  have 1: "loading (RG_after second_pending)
   \<and> error (RG_after second_pending) = JNull \<and> pdfUrl (RG_after second_pending) = None
   \<and> RG_spec_event (Settle (Responded pdf_response)) (RG_after second_pending) = Some ResolveOk
   \<and> spec_next (RG_kind (RG_after second_pending)) ResolveOk = Some KSuccess
   \<and> RG_kind (RG_step (Settle (Responded pdf_response)) (RG_after second_pending)) = KSuccess"
    using C7_state_machine [of second_pending "Settle (Responded pdf_response)"] h
    unfolding e k by simp
  have k2: "RG_kind (RG_after [SetTitle ''  '', SetFile (Some sample_csv)]) = KIdle"
    by (simp add: RG_kind_def RG_init_def)
  have e2: "RG_spec_event Submit (RG_after [SetTitle ''  '', SetFile (Some sample_csv)]) = Some SubmitInvalid"
    by (simp add: RG_init_def RG_required_missing_def RG_valid_def trim_blank2)
  have 2: "RG_spec_event Submit (RG_after [SetTitle ''  '', SetFile (Some sample_csv)]) = Some SubmitInvalid
   \<and> spec_next (RG_kind (RG_after [SetTitle ''  '', SetFile (Some sample_csv)])) SubmitInvalid = Some KFailed
   \<and> RG_kind (RG_step Submit (RG_after [SetTitle ''  '', SetFile (Some sample_csv)])) = KFailed"
    using C7_state_machine [of "[SetTitle ''  '', SetFile (Some sample_csv)]" Submit]
    unfolding e2 k2 by simp
  have m: "RG_required_missing (RG_after [])"
    by (simp add: RG_required_missing_def RG_init_def)
  have 3: "RG_step Submit (RG_after []) = RG_after []"
    using C7_state_machine [of "[]" Submit] m by blast
  show ?thesis using 1 2 3 m by blast
qed

text \<open>
  C8, as stated, fails: \<^verbatim>\<open>URL.revokeObjectURL\<close> is never called, so after two successful
  submissions both object URLs are in the blob URL store.
\<close>

theorem C8_live_references_counterexample:
  "blob_urls (RG_step (Settle (Responded pdf_response)) (RG_after second_pending))
     = [(BlobURL 0, sample_pdf), (BlobURL 1, sample_pdf)]
   \<and> pdfUrl (RG_step (Settle (Responded pdf_response)) (RG_after second_pending)) = Some (BlobURL 1)"
  by (simp add: RG_after_second_pending RG_resume_success [OF ok_pdf blob_pdf])

text \<open>
  C8, amended. When a pending submission succeeds, \<^verbatim>\<open>pdfUrl\<close> becomes the object URL just
  created, which is none of the earlier ones, and that URL is added to the blob URL store;
  no step removes a URL from the store, so every reference created remains live.
\<close>

theorem C8_reference_replaced:
  "(loading (RG_after evs) \<and> ok r \<and> blob_result r = Inr b \<longrightarrow>
      pdfUrl (RG_step (Settle (Responded r)) (RG_after evs)) = Some (BlobURL (url_counter (RG_after evs)))
      \<and> BlobURL (url_counter (RG_after evs)) \<notin> fst ` set (blob_urls (RG_after evs))
      \<and> blob_urls (RG_step (Settle (Responded r)) (RG_after evs))
          = blob_urls (RG_after evs) @ [(BlobURL (url_counter (RG_after evs)), b)])
   \<and> take (length (blob_urls w)) (blob_urls (RG_step e w)) = blob_urls w
   \<and> (inflight (App_after evs') \<noteq> 0 \<and> ok r \<and> blob_result r = Inr b \<longrightarrow>
      pdfUrl (App_step (Settle (Responded r)) (App_after evs')) = Some (BlobURL (url_counter (App_after evs')))
      \<and> BlobURL (url_counter (App_after evs')) \<notin> fst ` set (blob_urls (App_after evs'))
      \<and> blob_urls (App_step (Settle (Responded r)) (App_after evs'))
          = blob_urls (App_after evs') @ [(BlobURL (url_counter (App_after evs')), b)])
   \<and> take (length (blob_urls a)) (blob_urls (App_step e a)) = blob_urls a"
proof (intro conjI impI)
  assume h: "loading (RG_after evs) \<and> ok r \<and> blob_result r = Inr b"
  have "RG_inv (RG_after evs)" by (rule RG_inv_run)
  with h have n: "inflight (RG_after evs) \<noteq> 0" by (simp add: RG_inv_def)
  from h have eq: "handleSubmit_resume (Responded r) (RG_after evs) =
     (RG_after evs)\<lparr>inflight := inflight (RG_after evs) - 1,
       blob_urls := blob_urls (RG_after evs) @ [(BlobURL (url_counter (RG_after evs)), b)],
       url_counter := url_counter (RG_after evs) + 1,
       pdfUrl := Some (BlobURL (url_counter (RG_after evs))), loading := False\<rparr>"
    by (simp add: RG_resume_success)
  show "pdfUrl (RG_step (Settle (Responded r)) (RG_after evs)) = Some (BlobURL (url_counter (RG_after evs)))"
    using n by (simp add: eq)
  show "blob_urls (RG_step (Settle (Responded r)) (RG_after evs))
          = blob_urls (RG_after evs) @ [(BlobURL (url_counter (RG_after evs)), b)]"
    using n by (simp add: eq)
  show "BlobURL (url_counter (RG_after evs)) \<notin> fst ` set (blob_urls (RG_after evs))"
    by (rule store_inv_fresh [OF RG_store_inv_run])
next
  assume h: "inflight (App_after evs') \<noteq> 0 \<and> ok r \<and> blob_result r = Inr b"
  then have eq: "App_handleSubmit_resume (Responded r) (App_after evs') =
     (App_after evs')\<lparr>inflight := inflight (App_after evs') - 1,
       blob_urls := blob_urls (App_after evs') @ [(BlobURL (url_counter (App_after evs')), b)],
       url_counter := url_counter (App_after evs') + 1,
       pdfUrl := Some (BlobURL (url_counter (App_after evs')))\<rparr>"
    by (simp add: App_resume_success)
  show "pdfUrl (App_step (Settle (Responded r)) (App_after evs')) = Some (BlobURL (url_counter (App_after evs')))"
    using h by (simp add: eq)
  show "blob_urls (App_step (Settle (Responded r)) (App_after evs'))
          = blob_urls (App_after evs') @ [(BlobURL (url_counter (App_after evs')), b)]"
    using h by (simp add: eq)
  show "BlobURL (url_counter (App_after evs')) \<notin> fst ` set (blob_urls (App_after evs'))"
    by (rule store_inv_fresh [OF App_store_inv_run])
qed (rule RG_blob_urls_kept, rule App_blob_urls_kept)

theorem C8_reference_replaced_witness:
  "loading (RG_after second_pending) \<and> ok pdf_response \<and> blob_result pdf_response = Inr sample_pdf
   \<and> pdfUrl (RG_step (Settle (Responded pdf_response)) (RG_after second_pending))
       = Some (BlobURL (url_counter (RG_after second_pending)))
   \<and> blob_urls (RG_step (Settle (Responded pdf_response)) (RG_after second_pending))
       = blob_urls (RG_after second_pending) @ [(BlobURL (url_counter (RG_after second_pending)), sample_pdf)]
   \<and> blob_urls (RG_after second_pending) = [(BlobURL 0, sample_pdf)]
   \<and> inflight (App_after [SetTitle ''Ann'', SetFile (Some sample_csv), Submit]) \<noteq> 0
   \<and> pdfUrl (App_step (Settle (Responded pdf_response)) (App_after [SetTitle ''Ann'', SetFile (Some sample_csv), Submit]))
       = Some (BlobURL (url_counter (App_after [SetTitle ''Ann'', SetFile (Some sample_csv), Submit])))"
proof -
  have h: "loading (RG_after second_pending)"
    and u: "blob_urls (RG_after second_pending) = [(BlobURL 0, sample_pdf)]"
    by (simp_all add: RG_after_second_pending)
  have a: "inflight (App_after [SetTitle ''Ann'', SetFile (Some sample_csv), Submit]) \<noteq> 0"
    by (simp add: App_init_def App_handleSubmit_def analyzeData_def fetch_def Let_def)
  show ?thesis
    using C8_reference_replaced [of second_pending pdf_response sample_pdf _ _
        "[SetTitle ''Ann'', SetFile (Some sample_csv), Submit]"] h u a ok_pdf blob_pdf
    by blast
qed

end
